theory Spec2Isabelle
  imports Complex_Main
begin

section \<open>The timer of \<open>PomodoroApp\<close> (src/app/page.tsx)\<close>

text \<open>
  The component keeps its timer in React state cells. The cells the timer logic reads or
  writes are collected in one record: \<open>workTime\<close> and \<open>breakTime\<close> (minutes),
  \<open>currentTime\<close> (the displayed seconds), \<open>mode\<close>, \<open>endTime\<close> (absolute
  milliseconds, \<open>null\<close> is \<open>None\<close>), \<open>vibrationEnabled\<close> and the ref
  \<open>prevModeRef\<close>. Timestamps are the integers \<open>Date.now()\<close> returns. The three
  counters log the calls of the side effects \<open>launchConfetti\<close>,
  \<open>navigator.vibrate([200, 100, 200, 100, 200])\<close> and \<open>recordPomodoro\<close>.
\<close>

datatype mode = Idle | Work | FinishedWork | Break

record app =
  workTime :: int
  breakTime :: int
  currentTime :: int
  mode :: mode
  endTime :: "int option"
  vibrationEnabled :: bool
  prevModeRef :: mode
  confettiLaunched :: nat
  vibrationPulses :: nat
  pomodorosRecorded :: nat

text \<open>
  The state at mount: the \<open>useState\<close> and \<open>useRef\<close> initial values (the effects
  that run once at mount leave them as they are).
\<close>

definition initial :: app where
  "initial = \<lparr> workTime = 30, breakTime = 5, currentTime = 30 * 60, mode = Idle,
     endTime = None, vibrationEnabled = False, prevModeRef = Idle,
     confettiLaunched = 0, vibrationPulses = 0, pomodorosRecorded = 0 \<rparr>"

text \<open>\<open>startWork\<close> and \<open>startBreak\<close>; \<open>now\<close> is the value of \<open>Date.now()\<close>.\<close>

definition startWork :: "int \<Rightarrow> app \<Rightarrow> app" where
  "startWork now s =
     (if mode s = Idle
      then s\<lparr> endTime := Some (now + workTime s * 60 * 1000), mode := Work \<rparr>
      else s)"

definition startBreak :: "int \<Rightarrow> app \<Rightarrow> app" where
  "startBreak now s =
     (if mode s = FinishedWork
      then s\<lparr> endTime := Some (now + breakTime s * 60 * 1000), mode := Break \<rparr>
      else s)"

text \<open>
  The countdown effect arms an interval only when the mode is \<open>work\<close> or \<open>break\<close>
  and \<open>endTime\<close> is not \<open>null\<close>. \<open>secondsLeft\<close> is the value the callback
  computes: \<open>Math.max(0, Math.floor((endTime - Date.now()) / 1000))\<close>; on integers
  the floor of the quotient is \<open>div\<close>. \<open>tick\<close> is one run of the interval callback
  (nothing happens when no interval is armed). The callback never writes \<open>endTime\<close>.
\<close>

definition intervalArmed :: "app \<Rightarrow> bool" where
  "intervalArmed s = ((mode s = Work \<or> mode s = Break) \<and> endTime s \<noteq> None)"

definition secondsLeft :: "int \<Rightarrow> int \<Rightarrow> int" where
  "secondsLeft e now = max 0 ((e - now) div 1000)"

definition tick :: "int \<Rightarrow> app \<Rightarrow> app" where
  "tick now s =
     (case endTime s of
        None \<Rightarrow> s
      | Some e \<Rightarrow>
          if mode s = Work \<or> mode s = Break then
            let s1 = s\<lparr> currentTime := secondsLeft e now \<rparr> in
            if secondsLeft e now = 0 then
              (if mode s = Work then s1\<lparr> mode := FinishedWork \<rparr>
               else if mode s = Break then s1\<lparr> mode := Idle \<rparr>
               else s1)
            else s1
          else s)"

text \<open>
  The effect with dependencies \<open>[mode, recordPomodoro, vibrationEnabled]\<close>: confetti
  (and the vibration pattern when enabled) whenever it runs in mode \<open>finishedWork\<close>;
  \<open>recordPomodoro\<close> and confetti when the previous mode was \<open>break\<close> and the mode
  is \<open>idle\<close>; then the ref takes the mode. (\<open>vibrationEnabled\<close> is only ever set on
  a device where \<open>navigator.vibrate\<close> exists, so the second half of the test
  \<open>vibrationEnabled && navigator.vibrate\<close> adds nothing.)
\<close>

definition transitionEffect :: "app \<Rightarrow> app" where
  "transitionEffect s =
     (let s1 = (if mode s = FinishedWork
                then s\<lparr> confettiLaunched := confettiLaunched s + 1,
                        vibrationPulses := vibrationPulses s + (if vibrationEnabled s then 1 else 0) \<rparr>
                else s);
          s2 = (if prevModeRef s1 = Break \<and> mode s1 = Idle
                then s1\<lparr> pomodorosRecorded := pomodorosRecorded s1 + 1,
                         confettiLaunched := confettiLaunched s1 + 1 \<rparr>
                else s1)
      in s2\<lparr> prevModeRef := mode s2 \<rparr>)"

text \<open>The effect with dependencies \<open>[workTime, mode]\<close>.\<close>

definition resetEffect :: "app \<Rightarrow> app" where
  "resetEffect s = (if mode s = Idle then s\<lparr> currentTime := workTime s * 60 \<rparr> else s)"

text \<open>
  What can happen to the component: the two buttons, a run of the interval callback,
  the duration setters, and the ``Enable Vibration'' button (shown while
  \<open>vibrationEnabled\<close> is false; it sets the flag on a device with a vibration API).
\<close>

datatype event =
    StartWork int
  | StartBreak int
  | Tick int
  | SetWorkTime int
  | SetBreakTime int
  | EnableVibration

fun handler :: "event \<Rightarrow> app \<Rightarrow> app" where
  "handler (StartWork now) s = startWork now s"
| "handler (StartBreak now) s = startBreak now s"
| "handler (Tick now) s = tick now s"
| "handler (SetWorkTime w) s = s\<lparr> workTime := w \<rparr>"
| "handler (SetBreakTime b) s = s\<lparr> breakTime := b \<rparr>"
| "handler EnableVibration s = s\<lparr> vibrationEnabled := True \<rparr>"

text \<open>
  After the render that follows a handler, React runs every effect one of whose
  dependencies changed, in the order the effects are declared. Of the dependencies of
  the first effect, \<open>mode\<close> and \<open>vibrationEnabled\<close> are state of the model; the
  callback \<open>recordPomodoro\<close> also changes identity with the session and the stored
  count, which would only add runs of that effect.
\<close>

definition runEffects :: "app \<Rightarrow> app \<Rightarrow> app" where
  "runEffects old new =
     (let s1 = (if mode new \<noteq> mode old \<or> vibrationEnabled new \<noteq> vibrationEnabled old
                then transitionEffect new else new)
      in if workTime new \<noteq> workTime old \<or> mode new \<noteq> mode old
         then resetEffect s1 else s1)"

definition step :: "event \<Rightarrow> app \<Rightarrow> app" where
  "step e s = runEffects s (handler e s)"

fun run :: "event list \<Rightarrow> app \<Rightarrow> app" where
  "run [] s = s"
| "run (e # es) s = run es (step e s)"

section \<open>The particle simulation of \<open>OrangePhysics\<close> (src/app/page.tsx)\<close>

text \<open>
  JavaScript numbers are modelled as real numbers: the model is the arithmetic the
  code writes down, without the rounding of doubles. An orange is the object
  \<open>{ id, x, y, vx, vy }\<close>; \<open>x\<close> and \<open>y\<close> are the top-left corner of the sprite.
\<close>

record orange =
  oid :: int
  x :: real
  y :: real
  vx :: real
  vy :: real

record accel =
  ax :: real
  ay :: real

text \<open>The rectangle \<open>getBoundingClientRect()\<close> returns for the Start button.\<close>

record rect =
  left :: real
  top_edge :: real
  right :: real
  bottom :: real

definition orangeSize :: real where
  "orangeSize = 70"

definition effectiveRadius :: real where
  "effectiveRadius = orangeSize / 4"

definition minDistance :: real where
  "minDistance = effectiveRadius * 2"

subsection \<open>The acceleration handed to the simulation\<close>

definition accelRefInitial :: accel where
  "accelRefInitial = \<lparr> ax = 0, ay = 0 \<rparr>"

text \<open>
  \<open>handleDeviceOrientation\<close>: \<open>event.gamma || 0\<close> and \<open>event.beta || 0\<close> (a missing
  angle is \<open>None\<close>), times the sensitivity 3; the result is stored in \<open>accelRef\<close>.
\<close>

definition handleDeviceOrientation :: "real option \<Rightarrow> real option \<Rightarrow> accel" where
  "handleDeviceOrientation gamma beta =
     \<lparr> ax = (case gamma of None \<Rightarrow> 0 | Some g \<Rightarrow> g) * 3,
       ay = (case beta of None \<Rightarrow> 0 | Some b \<Rightarrow> b) * 3 \<rparr>"

definition defaultAccel :: accel where
  "defaultAccel = \<lparr> ax = 0, ay = 500 \<rparr>"

definition velocityBoost :: real where
  "velocityBoost = 1.5"

text \<open>
  The choice made at the start of every frame. \<open>hasDeviceOrientationEvent\<close> is the
  truth value of \<open>window.DeviceOrientationEvent\<close>.
\<close>

definition selectAccel :: "bool \<Rightarrow> bool \<Rightarrow> bool \<Rightarrow> accel \<Rightarrow> accel" where
  "selectAccel needsMotionPermission motionPermissionGranted hasDeviceOrientationEvent accelRef =
     (if (needsMotionPermission \<and> \<not> motionPermissionGranted) \<or> \<not> hasDeviceOrientationEvent
      then defaultAccel
      else \<lparr> ax = ax accelRef * velocityBoost, ay = ay accelRef * velocityBoost \<rparr>)"

subsection \<open>Population\<close>

text \<open>
  The effect with dependencies \<open>[count, oranges.length, orangeSize]\<close>. \<open>now i\<close> is
  the value of \<open>Date.now()\<close> in iteration \<open>i\<close> of the loop, and \<open>random\<close> the
  sequence of values \<open>Math.random()\<close> returns (two per new orange, \<open>x\<close> first).
  \<open>count\<close> is a row counter, a natural number.
\<close>

definition newOrange :: "(nat \<Rightarrow> int) \<Rightarrow> (nat \<Rightarrow> real) \<Rightarrow> real \<Rightarrow> real \<Rightarrow> nat \<Rightarrow> orange" where
  "newOrange now random containerWidth containerHeight i =
     \<lparr> oid = now i + int i,
       x = random (2 * i) * (containerWidth - orangeSize),
       y = random (2 * i + 1) * (containerHeight - orangeSize),
       vx = 0, vy = 0 \<rparr>"

definition adjustPopulation ::
  "(nat \<Rightarrow> int) \<Rightarrow> (nat \<Rightarrow> real) \<Rightarrow> real \<Rightarrow> real \<Rightarrow> nat \<Rightarrow> orange list \<Rightarrow> orange list" where
  "adjustPopulation now random containerWidth containerHeight count oranges =
     (if count > length oranges then
        oranges @ map (newOrange now random containerWidth containerHeight)
                      [0 ..< count - length oranges]
      else if count < length oranges then take count oranges
      else oranges)"

subsection \<open>One frame: \<open>update\<close>\<close>

text \<open>Pass 1, the body of \<open>prevOranges.map\<close>: integration, walls, damping.\<close>

definition integrate :: "accel \<Rightarrow> real \<Rightarrow> real \<Rightarrow> real \<Rightarrow> orange \<Rightarrow> orange" where
  "integrate a dt containerWidth containerHeight orange =
     (let vx1 = vx orange + ax a * dt;
          vy1 = vy orange + ay a * dt;
          x1 = x orange + vx1 * dt;
          y1 = y orange + vy1 * dt;
          (x2, vx2) = (if x1 < 0 then (0, - vx1 * 0.8)
                       else if x1 + orangeSize > containerWidth
                       then (containerWidth - orangeSize, - vx1 * 0.8)
                       else (x1, vx1));
          (y2, vy2) = (if y1 < 0 then (0, - vy1 * 0.8)
                       else if y1 + orangeSize > containerHeight
                       then (containerHeight - orangeSize, - vy1 * 0.8)
                       else (y1, vy1))
      in orange\<lparr> x := x2, y := y2, vx := vx2 * 0.99, vy := vy2 * 0.99 \<rparr>)"

text \<open>
  Pass 2, the body of the inner loop for the pair \<open>orangeA = newOranges[i]\<close>,
  \<open>orangeB = newOranges[j]\<close>: the two objects are moved apart and, when
  \<open>impulse < 0\<close>, their velocities changed. The result is the pair of updated objects.
\<close>

definition centerDistance :: "orange \<Rightarrow> orange \<Rightarrow> real" where
  "centerDistance orangeA orangeB =
     (let dx = (x orangeB + orangeSize / 2) - (x orangeA + orangeSize / 2);
          dy = (y orangeB + orangeSize / 2) - (y orangeA + orangeSize / 2)
      in sqrt (dx * dx + dy * dy))"

definition collide :: "orange \<Rightarrow> orange \<Rightarrow> orange \<times> orange" where
  "collide orangeA orangeB =
     (let dx = (x orangeB + orangeSize / 2) - (x orangeA + orangeSize / 2);
          dy = (y orangeB + orangeSize / 2) - (y orangeA + orangeSize / 2);
          distance = sqrt (dx * dx + dy * dy)
      in if distance < minDistance \<and> distance > 0 then
           let overlap = (minDistance - distance) / 2;
               nx = dx / distance;
               ny = dy / distance;
               a1 = orangeA\<lparr> x := x orangeA - overlap * nx, y := y orangeA - overlap * ny \<rparr>;
               b1 = orangeB\<lparr> x := x orangeB + overlap * nx, y := y orangeB + overlap * ny \<rparr>;
               dvx = vx a1 - vx b1;
               dvy = vy a1 - vy b1;
               impulse = dvx * nx + dvy * ny
           in if impulse < 0 then
                let impulseScalar = - impulse * 0.8
                in (a1\<lparr> vx := vx a1 + impulseScalar * nx, vy := vy a1 + impulseScalar * ny \<rparr>,
                    b1\<lparr> vx := vx b1 - impulseScalar * nx, vy := vy b1 - impulseScalar * ny \<rparr>)
              else (a1, b1)
         else (orangeA, orangeB))"

text \<open>
  The two nested loops visit the index pairs \<open>i < j\<close> in lexicographic order and
  mutate the two objects of each pair in place.
\<close>

definition resolvePair :: "nat \<Rightarrow> nat \<Rightarrow> orange list \<Rightarrow> orange list" where
  "resolvePair i j newOranges =
     (let (a, b) = collide (newOranges ! i) (newOranges ! j)
      in newOranges[i := a, j := b])"

definition pairIndices :: "nat \<Rightarrow> (nat \<times> nat) list" where
  "pairIndices n = concat (map (\<lambda>i. map (\<lambda>j. (i, j)) [Suc i ..< n]) [0 ..< n])"

definition pairwisePass :: "orange list \<Rightarrow> orange list" where
  "pairwisePass newOranges =
     fold (\<lambda>(i, j). resolvePair i j) (pairIndices (length newOranges)) newOranges"

text \<open>
  Pass 3, the body of the loop over the oranges when the Start button is mounted:
  distance from the centre to the nearest point of the rectangle, the contact normal
  (straight up when the distance is 0), reflection and push-out.
\<close>

definition obstacleDist :: "rect \<Rightarrow> orange \<Rightarrow> real \<times> real \<times> real" where
  "obstacleDist buttonRect orange =
     (let cx = x orange + orangeSize / 2;
          cy = y orange + orangeSize / 2;
          nearestX = max (left buttonRect) (min cx (right buttonRect));
          nearestY = max (top_edge buttonRect) (min cy (bottom buttonRect));
          distX = cx - nearestX;
          distY = cy - nearestY
      in (distX, distY, sqrt (distX * distX + distY * distY)))"

definition contactNormal :: "rect \<Rightarrow> orange \<Rightarrow> real \<times> real" where
  "contactNormal buttonRect orange =
     (let (distX, distY, dist) = obstacleDist buttonRect orange
      in if dist = 0 then (0, - 1) else (distX / dist, distY / dist))"

definition obstacleHit :: "rect \<Rightarrow> orange \<Rightarrow> orange" where
  "obstacleHit buttonRect orange =
     (let (distX, distY, dist) = obstacleDist buttonRect orange
      in if dist < effectiveRadius then
           let (nx, ny) = contactNormal buttonRect orange;
               dot = vx orange * nx + vy orange * ny;
               penetration = effectiveRadius - dist
           in orange\<lparr> vx := vx orange - 2 * dot * nx,
                       vy := vy orange - 2 * dot * ny,
                       x := x orange + nx * penetration,
                       y := y orange + ny * penetration \<rparr>
         else orange)"

text \<open>\<open>button\<close> is \<open>None\<close> when \<open>startButtonRef.current\<close> is \<open>null\<close>.\<close>

definition obstaclePass :: "rect option \<Rightarrow> orange list \<Rightarrow> orange list" where
  "obstaclePass button newOranges =
     (case button of None \<Rightarrow> newOranges
      | Some buttonRect \<Rightarrow> map (obstacleHit buttonRect) newOranges)"

text \<open>The state updater of one animation frame.\<close>

definition update ::
  "accel \<Rightarrow> real \<Rightarrow> real \<Rightarrow> real \<Rightarrow> rect option \<Rightarrow> orange list \<Rightarrow> orange list" where
  "update a dt containerWidth containerHeight button prevOranges =
     obstaclePass button
       (pairwisePass (map (integrate a dt containerWidth containerHeight) prevOranges))"

subsection \<open>Quantities of the loop bodies, named for the statements below\<close>

text \<open>
  \<open>pairNormal\<close> is the pair \<open>(nx, ny)\<close> and \<open>pairImpulse\<close> the value \<open>impulse\<close>
  that the body of the pairwise loop computes (the separation does not change the
  velocities they are computed from); \<open>touches\<close> is the test \<open>dist < effectiveRadius\<close> of
  the button loop.
\<close>

definition pairNormal :: "orange \<Rightarrow> orange \<Rightarrow> real \<times> real" where
  "pairNormal orangeA orangeB =
     (let dx = (x orangeB + orangeSize / 2) - (x orangeA + orangeSize / 2);
          dy = (y orangeB + orangeSize / 2) - (y orangeA + orangeSize / 2);
          distance = sqrt (dx * dx + dy * dy)
      in (dx / distance, dy / distance))"

definition pairImpulse :: "orange \<Rightarrow> orange \<Rightarrow> real" where
  "pairImpulse orangeA orangeB =
     (let (nx, ny) = pairNormal orangeA orangeB
      in (vx orangeA - vx orangeB) * nx + (vy orangeA - vy orangeB) * ny)"

definition touches :: "rect \<Rightarrow> orange \<Rightarrow> bool" where
  "touches buttonRect orange = (snd (snd (obstacleDist buttonRect orange)) < effectiveRadius)"

text \<open>
  \<open>approaching\<close> is not a quantity of the code but the geometric meaning of the word:
  the centres are getting closer, that is, the derivative of the squared centre
  distance, \<open>2 (pB - pA) \<cdot> (vB - vA)\<close>, is negative.
\<close>

definition approaching :: "orange \<Rightarrow> orange \<Rightarrow> bool" where
  "approaching orangeA orangeB =
     ((x orangeB - x orangeA) * (vx orangeB - vx orangeA)
      + (y orangeB - y orangeA) * (vy orangeB - vy orangeA) < 0)"

section \<open>Timer properties\<close>

lemma secondsLeft_nonneg: "0 \<le> secondsLeft e now"
  by (simp add: secondsLeft_def)

lemma secondsLeft_past: "e \<le> now \<Longrightarrow> secondsLeft e now = 0"
  unfolding secondsLeft_def by (simp add: div_nonpos_pos_le0)

lemma secondsLeft_last_second: "e - now < 1000 \<Longrightarrow> secondsLeft e now = 0"
  unfolding secondsLeft_def by simp

lemmas timer_defs =
  step_def runEffects_def transitionEffect_def resetEffect_def
  startWork_def startBreak_def tick_def secondsLeft_def initial_def Let_def

lemma tick_endTime: "endTime (tick now s) = endTime s"
  by (simp add: tick_def Let_def split: option.splits)

lemma tick_mode_idle: "mode (tick now s) \<noteq> Idle \<Longrightarrow> mode s \<noteq> Idle"
  by (simp add: tick_def Let_def split: option.splits if_splits)

lemma transitionEffect_keeps: "endTime (transitionEffect s) = endTime s \<and> mode (transitionEffect s) = mode s"
  by (simp add: transitionEffect_def Let_def)

lemma resetEffect_keeps: "endTime (resetEffect s) = endTime s \<and> mode (resetEffect s) = mode s"
  by (simp add: resetEffect_def)

lemma runEffects_keeps: "endTime (runEffects old new) = endTime new \<and> mode (runEffects old new) = mode new"
  by (simp add: runEffects_def Let_def transitionEffect_keeps resetEffect_keeps)

lemma handler_keeps_endTime: "endTime s \<noteq> None \<Longrightarrow> endTime (handler e s) \<noteq> None"
  by (cases e) (simp_all add: startWork_def startBreak_def tick_endTime)

lemma handler_deadline_inv:
  assumes "mode s \<noteq> Idle \<longrightarrow> endTime s \<noteq> None"
  shows "mode (handler e s) \<noteq> Idle \<longrightarrow> endTime (handler e s) \<noteq> None"
proof (cases e)
  case (Tick now)
  then show ?thesis using assms tick_mode_idle [of now s] by (auto simp: tick_endTime)
qed (use assms in \<open>simp_all add: startWork_def startBreak_def\<close>)

lemma step_keeps_endTime: "endTime s \<noteq> None \<Longrightarrow> endTime (step e s) \<noteq> None"
  by (simp add: step_def runEffects_keeps handler_keeps_endTime)

lemma step_deadline_inv:
  "mode s \<noteq> Idle \<longrightarrow> endTime s \<noteq> None \<Longrightarrow>
   mode (step e s) \<noteq> Idle \<longrightarrow> endTime (step e s) \<noteq> None"
  using handler_deadline_inv [of s e] by (simp add: step_def runEffects_keeps)

lemma run_deadline_inv:
  "mode s \<noteq> Idle \<longrightarrow> endTime s \<noteq> None \<Longrightarrow>
   mode (run evs s) \<noteq> Idle \<longrightarrow> endTime (run evs s) \<noteq> None"
proof (induction evs arbitrary: s)
  case Nil
  then show ?case by simp
next
  case (Cons e evs)
  from Cons.prems have "mode (step e s) \<noteq> Idle \<longrightarrow> endTime (step e s) \<noteq> None"
    by (rule step_deadline_inv)
  then show ?case using Cons.IH by simp
qed

lemma tick_unarmed: "\<not> intervalArmed s \<Longrightarrow> tick now s = s"
  by (auto simp: intervalArmed_def tick_def split: option.splits)

lemma late_tick_finishes_work:
  assumes "mode s = Work" and "endTime s = Some d" and "d \<le> now"
  shows "mode (step (Tick now) s) = FinishedWork
       \<and> confettiLaunched (step (Tick now) s) = confettiLaunched s + 1"
  using assms secondsLeft_past [of d now]
  by (simp add: step_def runEffects_def transitionEffect_def resetEffect_def tick_def Let_def)

lemma tick_in_finishedWork: "mode s = FinishedWork \<Longrightarrow> step (Tick now) s = s"
  by (simp add: step_def runEffects_def tick_def split: option.splits)

text \<open>
  Claim C1, as the code has it. In mode \<open>work\<close> or \<open>break\<close> with deadline \<open>d\<close>, the
  interval callback sets the displayed seconds to \<open>max(0, floor((d - now) / 1000))\<close>,
  for every \<open>now\<close>; the value is 0 as soon as less than a full second is left, and so
  for every \<open>now\<close> past the deadline. The quotient is rounded down, not to the nearest
  integer.
\<close>

theorem tick_displays_floor:
  assumes "mode s = Work \<or> mode s = Break" and "endTime s = Some d"
  shows "currentTime (tick now s) = max 0 \<lfloor>real_of_int (d - now) / 1000\<rfloor>
       \<and> currentTime (tick now s) = max 0 ((d - now) div 1000)
       \<and> (d - now < 1000 \<longrightarrow> currentTime (tick now s) = 0)"
proof -
  have ct: "currentTime (tick now s) = secondsLeft d now"
    using assms by (auto simp: tick_def Let_def)
  have fl: "\<lfloor>real_of_int (d - now) / 1000\<rfloor> = (d - now) div 1000"
    using floor_divide_of_int_eq [of "d - now" 1000, where ?'a = real] by simp
  show ?thesis
    using ct fl secondsLeft_last_second [of d now] by (simp add: secondsLeft_def)
qed

theorem tick_displays_floor_witness:
  "(mode (run [StartWork 0] initial) = Work \<or> mode (run [StartWork 0] initial) = Break)
   \<and> endTime (run [StartWork 0] initial) = Some 1800000
   \<and> currentTime (tick 1799500 (run [StartWork 0] initial)) = max 0 ((1800000 - 1799500) div 1000)
   \<and> currentTime (tick 1799500 (run [StartWork 0] initial)) = 0"
proof -
  have m: "mode (run [StartWork 0] initial) = Work \<or> mode (run [StartWork 0] initial) = Break"
    by (simp add: timer_defs)
  have e: "endTime (run [StartWork 0] initial) = Some 1800000"
    by (simp add: timer_defs)
  show ?thesis
    using m e tick_displays_floor [OF m e, of 1799500] by simp
qed

text \<open>
  Claim C1 as stated fails: 300 ms after \<open>startWork\<close> with the default 30 minutes,
  1799.7 s are left; the callback displays 1799, the nearest integer is 1800.
\<close>

theorem tick_round_counterexample:
  "currentTime (tick 300 (run [StartWork 0] initial)) = 1799
   \<and> max 0 (round (real_of_int (1800000 - 300) / 1000)) = 1800"
  by (simp add: timer_defs round_def)

text \<open>
  Claim C2, as the code has it. In every state reachable from the mount state, the
  deadline is set whenever the mode is not \<open>idle\<close>; \<open>startWork\<close> and
  \<open>startBreak\<close> set it from their source state, and no step ever clears it.
\<close>

theorem deadline_set_outside_idle:
  "(mode (run evs initial) \<noteq> Idle \<longrightarrow> endTime (run evs initial) \<noteq> None)
   \<and> (mode s = Idle \<longrightarrow> endTime (startWork now s) = Some (now + workTime s * 60 * 1000))
   \<and> (mode s = FinishedWork \<longrightarrow> endTime (startBreak now s) = Some (now + breakTime s * 60 * 1000))
   \<and> (endTime s \<noteq> None \<longrightarrow> endTime (step e s) \<noteq> None)"
proof -
  have "mode initial \<noteq> Idle \<longrightarrow> endTime initial \<noteq> None"
    by (simp add: initial_def)
  then have "mode (run evs initial) \<noteq> Idle \<longrightarrow> endTime (run evs initial) \<noteq> None"
    by (rule run_deadline_inv)
  then show ?thesis
    using step_keeps_endTime [of s e] by (simp add: startWork_def startBreak_def)
qed

theorem deadline_set_outside_idle_witness:
  "mode (run [StartWork 0] initial) \<noteq> Idle
   \<and> endTime (run [StartWork 0] initial) \<noteq> None
   \<and> mode initial = Idle
   \<and> endTime (startWork 7 initial) = Some (7 + workTime initial * 60 * 1000)
   \<and> mode (run [StartWork 0, Tick 1800000] initial) = FinishedWork
   \<and> endTime (startBreak 1800000 (run [StartWork 0, Tick 1800000] initial))
       = Some (1800000 + breakTime (run [StartWork 0, Tick 1800000] initial) * 60 * 1000)
   \<and> endTime (step (Tick 1800000) (run [StartWork 0] initial)) \<noteq> None"
proof -
  have a: "mode (run [StartWork 0] initial) \<noteq> Idle" by (simp add: timer_defs)
  have b: "mode initial = Idle" by (simp add: initial_def)
  have c: "mode (run [StartWork 0, Tick 1800000] initial) = FinishedWork"
    by (simp add: timer_defs)
  have d: "endTime (run [StartWork 0] initial) \<noteq> None" by (simp add: timer_defs)
  from deadline_set_outside_idle [of "[StartWork 0]" initial 7 "Tick 1800000"]
  have 1: "endTime (run [StartWork 0] initial) \<noteq> None"
    and 2: "endTime (startWork 7 initial) = Some (7 + workTime initial * 60 * 1000)"
    using a b by blast+
  from deadline_set_outside_idle
    [of "[]" "run [StartWork 0, Tick 1800000] initial" 1800000 "Tick 0"]
  have 3: "endTime (startBreak 1800000 (run [StartWork 0, Tick 1800000] initial))
       = Some (1800000 + breakTime (run [StartWork 0, Tick 1800000] initial) * 60 * 1000)"
    using c by blast
  from deadline_set_outside_idle [of "[]" "run [StartWork 0] initial" 0 "Tick 1800000"]
  have 4: "endTime (step (Tick 1800000) (run [StartWork 0] initial)) \<noteq> None"
    using d by blast
  show ?thesis using a b c 1 2 3 4 by blast
qed

text \<open>
  Claim C2 as stated fails: after one full cycle (work from 0 to 30 min, break from
  30 to 35 min) the mode is \<open>idle\<close> again and the deadline of the break is still
  stored.
\<close>

theorem deadline_kept_in_idle_counterexample:
  "mode (run [StartWork 0, Tick 1800000, StartBreak 1800000, Tick 2100000] initial) = Idle
   \<and> endTime (run [StartWork 0, Tick 1800000, StartBreak 1800000, Tick 2100000] initial)
       = Some 2100000"
  by (simp add: timer_defs)

text \<open>
  Claim C3 at a concrete run. Work is started at 0 and the first poll at or after the
  deadline moves the mode to \<open>finishedWork\<close>: confetti has been launched once. The
  user then presses ``Enable Vibration'' while the mode is still \<open>finishedWork\<close>; the
  effect runs again because \<open>vibrationEnabled\<close> is one of its dependencies, and
  confetti is launched a second time (and the vibration pattern fires) for the same
  crossing.
\<close>

theorem reward_fires_twice:
  "mode (run [StartWork 0, Tick 1800000] initial) = FinishedWork
   \<and> confettiLaunched (run [StartWork 0, Tick 1800000] initial) = 1
   \<and> mode (run [StartWork 0, Tick 1800000, EnableVibration] initial) = FinishedWork
   \<and> confettiLaunched (run [StartWork 0, Tick 1800000, EnableVibration] initial) = 2
   \<and> vibrationPulses (run [StartWork 0, Tick 1800000, EnableVibration] initial) = 1"
  by (simp add: timer_defs)

text \<open>
  Claim C4. \<open>startWork\<close> in any mode but \<open>idle\<close>, and \<open>startBreak\<close> in any mode
  but \<open>finishedWork\<close>, return the state they were given, and so does the whole step
  (no effect runs, since no dependency changed).
\<close>

theorem start_guards_noop:
  "(mode s \<noteq> Idle \<longrightarrow> startWork now s = s \<and> step (StartWork now) s = s)
   \<and> (mode s \<noteq> FinishedWork \<longrightarrow> startBreak now s = s \<and> step (StartBreak now) s = s)"
  by (simp add: startWork_def startBreak_def step_def runEffects_def)

theorem start_guards_noop_witness:
  "mode (run [StartWork 0] initial) \<noteq> Idle
   \<and> startWork 5 (run [StartWork 0] initial) = run [StartWork 0] initial
   \<and> step (StartWork 5) (run [StartWork 0] initial) = run [StartWork 0] initial
   \<and> mode initial \<noteq> FinishedWork
   \<and> startBreak 5 initial = initial
   \<and> step (StartBreak 5) initial = initial"
proof -
  have a: "mode (run [StartWork 0] initial) \<noteq> Idle" by (simp add: timer_defs)
  have b: "mode initial \<noteq> FinishedWork" by (simp add: initial_def)
  show ?thesis
    using a b start_guards_noop [of "run [StartWork 0] initial" 5]
      start_guards_noop [of initial 5]
    by blast
qed


section \<open>Properties of the simulation\<close>

subsection \<open>Supporting lemmas\<close>

lemma sqrt_100: "sqrt 100 = 10"
  using real_sqrt_abs2 [of 10] by simp

lemma sqrt_25: "sqrt 25 = 5"
  using real_sqrt_abs2 [of 5] by simp

lemma pairwisePass_two: "pairwisePass [a, b] = (let (a', b') = collide a b in [a', b'])"
  by (simp add: pairwisePass_def pairIndices_def resolvePair_def upt_rec split: prod.splits)

lemma integrate_inside:
  assumes "orangeSize \<le> cw" and "orangeSize \<le> ch"
  shows "0 \<le> x (integrate a dt cw ch p) \<and> x (integrate a dt cw ch p) \<le> cw - orangeSize
       \<and> 0 \<le> y (integrate a dt cw ch p) \<and> y (integrate a dt cw ch p) \<le> ch - orangeSize"
  using assms by (auto simp: integrate_def Let_def split: prod.splits if_splits)

text \<open>An orange that meets no wall in this frame.\<close>

lemma integrate_free:
  assumes "0 \<le> x p + (vx p + ax a * dt) * dt"
    and "x p + (vx p + ax a * dt) * dt + orangeSize \<le> cw"
    and "0 \<le> y p + (vy p + ay a * dt) * dt"
    and "y p + (vy p + ay a * dt) * dt + orangeSize \<le> ch"
  shows "integrate a dt cw ch p =
     p\<lparr> x := x p + (vx p + ax a * dt) * dt, y := y p + (vy p + ay a * dt) * dt,
        vx := (vx p + ax a * dt) * 0.99, vy := (vy p + ay a * dt) * 0.99 \<rparr>"
  using assms by (simp add: integrate_def Let_def)

text \<open>
  A pair on one horizontal line, the first orange \<open>w\<close> to the right of the second,
  closer than \<open>minDistance\<close>: where the loop body puts the two, whatever their
  velocities.
\<close>

lemma collide_level_position:
  assumes w: "0 < w" "w < minDistance"
  shows "x (fst (collide \<lparr> oid = i1, x = c + w, y = h, vx = u1, vy = v1 \<rparr>
                         \<lparr> oid = i2, x = c, y = h, vx = u2, vy = v2 \<rparr>))
           = c + w + (minDistance - w) / 2
       \<and> y (fst (collide \<lparr> oid = i1, x = c + w, y = h, vx = u1, vy = v1 \<rparr>
                           \<lparr> oid = i2, x = c, y = h, vx = u2, vy = v2 \<rparr>)) = h
       \<and> x (snd (collide \<lparr> oid = i1, x = c + w, y = h, vx = u1, vy = v1 \<rparr>
                           \<lparr> oid = i2, x = c, y = h, vx = u2, vy = v2 \<rparr>))
           = c - (minDistance - w) / 2
       \<and> y (snd (collide \<lparr> oid = i1, x = c + w, y = h, vx = u1, vy = v1 \<rparr>
                           \<lparr> oid = i2, x = c, y = h, vx = u2, vy = v2 \<rparr>)) = h"
proof -
  have d: "sqrt ((c + orangeSize / 2 - (c + w + orangeSize / 2)) * (c + orangeSize / 2 - (c + w + orangeSize / 2))
            + (h + orangeSize / 2 - (h + orangeSize / 2)) * (h + orangeSize / 2 - (h + orangeSize / 2))) = w"
    using w by simp
  have dx: "c + orangeSize / 2 - (c + w + orangeSize / 2) = - w" by simp
  have n: "- w / w = -1" using w by simp
  show ?thesis
    unfolding collide_def Let_def
    apply (simp only: orange.simps d dx)
    using w apply (simp add: n)
    done
qed

lemma collide_sum:
  "vx (fst (collide a b)) + vx (snd (collide a b)) = vx a + vx b
   \<and> vy (fst (collide a b)) + vy (snd (collide a b)) = vy a + vy b"
  by (simp add: collide_def Let_def)

text \<open>What the loop body does to the velocities when its test \<open>impulse < 0\<close> holds.\<close>

lemma collide_impulse:
  assumes "0 < centerDistance a b" "centerDistance a b < minDistance" "pairImpulse a b < 0"
  shows "vx (fst (collide a b)) = vx a + (- pairImpulse a b * 0.8) * fst (pairNormal a b)
       \<and> vy (fst (collide a b)) = vy a + (- pairImpulse a b * 0.8) * snd (pairNormal a b)
       \<and> vx (snd (collide a b)) = vx b - (- pairImpulse a b * 0.8) * fst (pairNormal a b)
       \<and> vy (snd (collide a b)) = vy b - (- pairImpulse a b * 0.8) * snd (pairNormal a b)"
  using assms by (simp add: collide_def centerDistance_def pairImpulse_def pairNormal_def Let_def)

text \<open>
  The sign of \<open>impulse\<close>: with the normal pointing from the first orange to the second
  and the relative velocity taken as first minus second, \<open>impulse < 0\<close> holds exactly
  when the centres are moving apart. So a pair whose centres are getting closer keeps
  its velocities.
\<close>

lemma pairImpulse_sign:
  assumes "0 < centerDistance a b"
  shows "(pairImpulse a b < 0)
       = (0 < (x b - x a) * (vx b - vx a) + (y b - y a) * (vy b - vy a))"
proof -
  define dd where "dd = centerDistance a b"
  define s where "s = (x b - x a) * (vx b - vx a) + (y b - y a) * (vy b - vy a)"
  have dd: "0 < dd" using assms by (simp add: dd_def)
  have pi: "pairImpulse a b = - s / dd"
    unfolding pairImpulse_def pairNormal_def centerDistance_def dd_def s_def Let_def
    by (simp add: algebra_simps add_divide_distrib diff_divide_distrib)
  have "(- s / dd < 0) = (0 < s)"
    using dd by (auto simp: zero_less_divide_iff)
  then show ?thesis unfolding pi s_def .
qed

lemma collide_no_impulse:
  assumes "\<not> pairImpulse a b < 0"
  shows "vx (fst (collide a b)) = vx a \<and> vy (fst (collide a b)) = vy a
       \<and> vx (snd (collide a b)) = vx b \<and> vy (snd (collide a b)) = vy b"
  using assms by (simp add: collide_def pairImpulse_def pairNormal_def Let_def)

lemma collide_coincident:
  assumes "\<not> 0 < centerDistance a b"
  shows "collide a b = (a, b)"
  using assms by (simp add: collide_def centerDistance_def Let_def)

lemma approaching_pair_gets_no_impulse:
  assumes "approaching a b"
  shows "vx (fst (collide a b)) = vx a \<and> vy (fst (collide a b)) = vy a
       \<and> vx (snd (collide a b)) = vx b \<and> vy (snd (collide a b)) = vy b"
proof (cases "0 < centerDistance a b")
  case True
  from assms have "\<not> 0 < (x b - x a) * (vx b - vx a) + (y b - y a) * (vy b - vy a)"
    by (simp add: approaching_def)
  then have "\<not> pairImpulse a b < 0"
    using pairImpulse_sign [OF True] by simp
  then show ?thesis by (rule collide_no_impulse)
next
  case False
  then show ?thesis by (simp add: collide_coincident)
qed

lemma pairwisePass_one: "pairwisePass [a] = [a]"
  by (simp add: pairwisePass_def pairIndices_def)

lemma update_button:
  "update a dt cw ch (Some r) prevOranges = map (obstacleHit r) (update a dt cw ch None prevOranges)"
  by (simp add: update_def obstaclePass_def)

lemma obstacleHit_clear: "\<not> touches r p \<Longrightarrow> obstacleHit r p = p"
  by (auto simp: touches_def obstacleHit_def split: prod.splits)

lemma update_clear:
  assumes "\<forall>r. button = Some r \<longrightarrow> (\<forall>p \<in> set (update a dt cw ch None os). \<not> touches r p)"
  shows "update a dt cw ch button os = update a dt cw ch None os"
proof (cases button)
  case None
  then show ?thesis by simp
next
  case (Some r)
  with assms have "\<forall>p \<in> set (update a dt cw ch None os). obstacleHit r p = p"
    by (simp add: obstacleHit_clear)
  then have "map (obstacleHit r) (update a dt cw ch None os) = update a dt cw ch None os"
    by (simp add: map_idI)
  then show ?thesis using Some by (simp add: update_def obstaclePass_def)
qed

lemma obstacleDist_sqrt:
  "obstacleDist r p = (dX, dY, d) \<Longrightarrow> 0 \<le> d \<and> d * d = dX * dX + dY * dY"
  by (auto simp: obstacleDist_def Let_def)

lemma contactNormal_unit:
  assumes "contactNormal r p = (nx, ny)"
  shows "nx * nx + ny * ny = 1"
proof -
  obtain dX dY d where od: "obstacleDist r p = (dX, dY, d)"
    by (cases "obstacleDist r p") auto
  then have d: "0 \<le> d" "d * d = dX * dX + dY * dY"
    using obstacleDist_sqrt by blast+
  show ?thesis
  proof (cases "d = 0")
    case True
    then show ?thesis using assms od by (auto simp: contactNormal_def)
  next
    case False
    then have n: "nx = dX / d" "ny = dY / d"
      using assms od by (simp_all add: contactNormal_def)
    have "nx * nx + ny * ny = (dX * dX + dY * dY) / (d * d)"
      unfolding n by (simp add: add_divide_distrib)
    also have "\<dots> = (d * d) / (d * d)" by (simp only: d(2))
    also have "\<dots> = 1" using False by simp
    finally show ?thesis .
  qed
qed

lemma reflect_speed:
  fixes u v nx ny :: real
  assumes "nx * nx + ny * ny = 1"
  shows "(u - 2 * (u * nx + v * ny) * nx)\<^sup>2 + (v - 2 * (u * nx + v * ny) * ny)\<^sup>2 = u\<^sup>2 + v\<^sup>2"
proof -
  have "(u - 2 * (u * nx + v * ny) * nx)\<^sup>2 + (v - 2 * (u * nx + v * ny) * ny)\<^sup>2
      = u\<^sup>2 + v\<^sup>2 - 4 * (u * nx + v * ny)\<^sup>2 + 4 * (u * nx + v * ny)\<^sup>2 * (nx * nx + ny * ny)"
    by (simp add: power2_eq_square algebra_simps)
  then show ?thesis using assms by simp
qed

lemma reflect_normal:
  fixes u v nx ny :: real
  assumes "nx * nx + ny * ny = 1"
  shows "(u - 2 * (u * nx + v * ny) * nx) * nx + (v - 2 * (u * nx + v * ny) * ny) * ny
       = - (u * nx + v * ny)"
proof -
  have "(u - 2 * (u * nx + v * ny) * nx) * nx + (v - 2 * (u * nx + v * ny) * ny) * ny
      = (u * nx + v * ny) - 2 * (u * nx + v * ny) * (nx * nx + ny * ny)"
    by (simp add: algebra_simps)
  then show ?thesis using assms by simp
qed

lemma newOrange_inside:
  assumes "0 \<le> random (2 * i)" "random (2 * i) < 1"
    and "0 \<le> random (2 * i + 1)" "random (2 * i + 1) < 1"
    and "orangeSize \<le> cw" "orangeSize \<le> ch"
  shows "0 \<le> x (newOrange now random cw ch i) \<and> x (newOrange now random cw ch i) \<le> cw - orangeSize
       \<and> 0 \<le> y (newOrange now random cw ch i) \<and> y (newOrange now random cw ch i) \<le> ch - orangeSize
       \<and> vx (newOrange now random cw ch i) = 0 \<and> vy (newOrange now random cw ch i) = 0"
proof -
  have "random (2 * i) * (cw - orangeSize) \<le> 1 * (cw - orangeSize)"
    using assms by (intro mult_right_mono) simp_all
  moreover have "random (2 * i + 1) * (ch - orangeSize) \<le> 1 * (ch - orangeSize)"
    using assms by (intro mult_right_mono) simp_all
  ultimately show ?thesis using assms by (simp add: newOrange_def)
qed

text \<open>
  Two oranges at one point with velocities \<open>(5, 0)\<close> and \<open>(-5, 0)\<close>, in a frame with
  \<open>0 < dt < 3.5\<close> in which neither meets a wall, without the button: where they are
  after the frame.
\<close>

lemma coincident_pair_positions:
  fixes a :: accel and dt x0 y0 cw ch :: real
  assumes dt: "0 < dt" "dt < 7 / 2"
    and wx: "0 \<le> x0 + (- 5 + ax a * dt) * dt" "x0 + (5 + ax a * dt) * dt + orangeSize \<le> cw"
    and wy: "0 \<le> y0 + ay a * dt * dt" "y0 + ay a * dt * dt + orangeSize \<le> ch"
  shows "length (update a dt cw ch None
           [\<lparr> oid = ia, x = x0, y = y0, vx = 5, vy = 0 \<rparr>,
            \<lparr> oid = ib, x = x0, y = y0, vx = - 5, vy = 0 \<rparr>]) = 2
       \<and> x (update a dt cw ch None
           [\<lparr> oid = ia, x = x0, y = y0, vx = 5, vy = 0 \<rparr>,
            \<lparr> oid = ib, x = x0, y = y0, vx = - 5, vy = 0 \<rparr>] ! 0)
           = x0 + (5 + ax a * dt) * dt + (minDistance - 10 * dt) / 2
       \<and> y (update a dt cw ch None
           [\<lparr> oid = ia, x = x0, y = y0, vx = 5, vy = 0 \<rparr>,
            \<lparr> oid = ib, x = x0, y = y0, vx = - 5, vy = 0 \<rparr>] ! 0)
           = y0 + ay a * dt * dt
       \<and> x (update a dt cw ch None
           [\<lparr> oid = ia, x = x0, y = y0, vx = 5, vy = 0 \<rparr>,
            \<lparr> oid = ib, x = x0, y = y0, vx = - 5, vy = 0 \<rparr>] ! 1)
           = x0 + (- 5 + ax a * dt) * dt - (minDistance - 10 * dt) / 2
       \<and> y (update a dt cw ch None
           [\<lparr> oid = ia, x = x0, y = y0, vx = 5, vy = 0 \<rparr>,
            \<lparr> oid = ib, x = x0, y = y0, vx = - 5, vy = 0 \<rparr>] ! 1)
           = y0 + ay a * dt * dt"
proof -
  let ?A = "\<lparr> oid = ia, x = x0, y = y0, vx = 5, vy = 0 \<rparr>"
  let ?B = "\<lparr> oid = ib, x = x0, y = y0, vx = - 5, vy = 0 \<rparr>"
  define c where "c = x0 + (- 5 + ax a * dt) * dt"
  define h where "h = y0 + ay a * dt * dt"
  have xa: "x0 + (5 + ax a * dt) * dt = c + 10 * dt"
    by (simp add: c_def algebra_simps)
  have lo: "0 \<le> c + 10 * dt" using wx(1) dt by (simp add: c_def)
  have hi: "c + orangeSize \<le> cw" using wx(2) dt unfolding xa by simp
  have iA: "integrate a dt cw ch ?A =
      \<lparr> oid = ia, x = c + 10 * dt, y = h, vx = (5 + ax a * dt) * 0.99, vy = ay a * dt * 0.99 \<rparr>"
    using integrate_free [of ?A a dt cw ch] lo wx(2) wy
    by (simp add: xa h_def)
  have iB: "integrate a dt cw ch ?B =
      \<lparr> oid = ib, x = c, y = h, vx = (- 5 + ax a * dt) * 0.99, vy = ay a * dt * 0.99 \<rparr>"
    using integrate_free [of ?B a dt cw ch] wx(1) hi wy
    by (simp add: c_def h_def)
  have w: "0 < 10 * dt" "10 * dt < minDistance"
    using dt by (simp_all add: minDistance_def effectiveRadius_def orangeSize_def)
  have r: "update a dt cw ch None [?A, ?B]
      = [fst (collide (integrate a dt cw ch ?A) (integrate a dt cw ch ?B)),
         snd (collide (integrate a dt cw ch ?A) (integrate a dt cw ch ?B))]"
    by (simp add: update_def obstaclePass_def pairwisePass_two split: prod.splits)
  note p = collide_level_position [OF w, of ia c h "(5 + ax a * dt) * 0.99" "ay a * dt * 0.99"
      ib "(- 5 + ax a * dt) * 0.99" "ay a * dt * 0.99"]
  show ?thesis
    unfolding r iA iB xa c_def [symmetric] h_def [symmetric] using p by simp
qed

subsection \<open>Containment and population\<close>

text \<open>
  Claim C5, as the code has it. In a container at least one orange wide and high, the
  integration-and-walls pass of every frame leaves every orange inside
  \<open>[0, containerWidth - orangeSize] \<times> [0, containerHeight - orangeSize]\<close>, whatever
  the acceleration, the time step and the positions before. (The pairwise separation
  and the push-out from the button that follow in the same frame are not clamped.)
\<close>

theorem boundary_pass_contains:
  assumes "orangeSize \<le> cw" and "orangeSize \<le> ch"
    and "p \<in> set (map (integrate a dt cw ch) prevOranges)"
  shows "0 \<le> x p \<and> x p \<le> cw - orangeSize \<and> 0 \<le> y p \<and> y p \<le> ch - orangeSize"
proof -
  from assms(3) obtain q where "p = integrate a dt cw ch q" by auto
  then show ?thesis using integrate_inside [OF assms(1,2), of a dt q] by simp
qed

theorem boundary_pass_contains_witness:
  "orangeSize \<le> 1000
   \<and> integrate defaultAccel (1 / 10) 1000 1000 \<lparr> oid = 1, x = 0, y = 0, vx = - 100, vy = 0 \<rparr>
       \<in> set (map (integrate defaultAccel (1 / 10) 1000 1000)
                 [\<lparr> oid = 1, x = 0, y = 0, vx = - 100, vy = 0 \<rparr>])
   \<and> 0 \<le> x (integrate defaultAccel (1 / 10) 1000 1000 \<lparr> oid = 1, x = 0, y = 0, vx = - 100, vy = 0 \<rparr>)
   \<and> x (integrate defaultAccel (1 / 10) 1000 1000 \<lparr> oid = 1, x = 0, y = 0, vx = - 100, vy = 0 \<rparr>)
       \<le> 1000 - orangeSize
   \<and> 0 \<le> y (integrate defaultAccel (1 / 10) 1000 1000 \<lparr> oid = 1, x = 0, y = 0, vx = - 100, vy = 0 \<rparr>)
   \<and> y (integrate defaultAccel (1 / 10) 1000 1000 \<lparr> oid = 1, x = 0, y = 0, vx = - 100, vy = 0 \<rparr>)
       \<le> 1000 - orangeSize"
proof -
  have s: "orangeSize \<le> 1000" by (simp add: orangeSize_def)
  have m: "integrate defaultAccel (1 / 10) 1000 1000 \<lparr> oid = 1, x = 0, y = 0, vx = - 100, vy = 0 \<rparr>
       \<in> set (map (integrate defaultAccel (1 / 10) 1000 1000)
                 [\<lparr> oid = 1, x = 0, y = 0, vx = - 100, vy = 0 \<rparr>])"
    by simp
  show ?thesis using s m boundary_pass_contains [OF s s m] by simp
qed

text \<open>
  Claim C5 as stated fails. Two resting oranges 10 px apart, the left one at the left
  wall (\<open>x = 0\<close>), default gravity, a frame of 1/64 s in a 1000 by 1000 container and
  no button: the pairwise pass moves the left orange to \<open>x = -12.5\<close>.
\<close>

theorem separation_leaves_container_counterexample:
  "x (update defaultAccel (1 / 64) 1000 1000 None
        [\<lparr> oid = 1, x = 0, y = 100, vx = 0, vy = 0 \<rparr>,
         \<lparr> oid = 2, x = 10, y = 100, vx = 0, vy = 0 \<rparr>] ! 0) = - 25 / 2"
  by (simp add: update_def obstaclePass_def pairwisePass_two integrate_def collide_def
      defaultAccel_def orangeSize_def minDistance_def effectiveRadius_def Let_def sqrt_100)

text \<open>
  Claim C6. When every value of \<open>Math.random()\<close> lies in \<open>[0, 1)\<close> and the container
  is at least one orange wide and high: raising the count from the current population
  to \<open>j\<close> more appends exactly \<open>j\<close> oranges, each with velocity 0 and a position
  inside the container bounds, after the unchanged old ones; lowering it by \<open>k\<close> keeps
  exactly the first \<open>length - k\<close> oranges as they were, and the \<open>k\<close> dropped ones are
  the last, that is the most recently appended.
\<close>

theorem population_tracks_count:
  assumes rnd: "\<forall>i. 0 \<le> random i \<and> random i < 1"
    and big: "orangeSize \<le> cw" "orangeSize \<le> ch"
    and k: "k \<le> length oranges"
  shows "adjustPopulation now random cw ch (length oranges + j) oranges
           = oranges @ map (newOrange now random cw ch) [0 ..< j]
       \<and> length (adjustPopulation now random cw ch (length oranges + j) oranges) = length oranges + j
       \<and> (\<forall>p \<in> set (map (newOrange now random cw ch) [0 ..< j]).
             vx p = 0 \<and> vy p = 0 \<and> 0 \<le> x p \<and> x p \<le> cw - orangeSize
             \<and> 0 \<le> y p \<and> y p \<le> ch - orangeSize)
       \<and> adjustPopulation now random cw ch (length oranges - k) oranges
           = take (length oranges - k) oranges
       \<and> length (adjustPopulation now random cw ch (length oranges - k) oranges) = length oranges - k
       \<and> oranges = adjustPopulation now random cw ch (length oranges - k) oranges
                     @ drop (length oranges - k) oranges
       \<and> length (drop (length oranges - k) oranges) = k
       \<and> (\<forall>i < length oranges - k.
             adjustPopulation now random cw ch (length oranges - k) oranges ! i = oranges ! i)"
proof -
  have grow: "adjustPopulation now random cw ch (length oranges + j) oranges
           = oranges @ map (newOrange now random cw ch) [0 ..< j]"
    by (simp add: adjustPopulation_def)
  have inside: "\<forall>p \<in> set (map (newOrange now random cw ch) [0 ..< j]).
             vx p = 0 \<and> vy p = 0 \<and> 0 \<le> x p \<and> x p \<le> cw - orangeSize
             \<and> 0 \<le> y p \<and> y p \<le> ch - orangeSize"
    using newOrange_inside [of random _ cw ch now] rnd big by auto
  have shrink: "adjustPopulation now random cw ch (length oranges - k) oranges
           = take (length oranges - k) oranges"
    by (auto simp: adjustPopulation_def)
  show ?thesis
    unfolding grow shrink using inside k by simp
qed

theorem population_tracks_count_witness:
  "(\<forall>i::nat. (0::real) \<le> 1 / 2 \<and> (1::real) / 2 < 1)
   \<and> orangeSize \<le> 1000
   \<and> (1::nat) \<le> length [\<lparr> oid = 1, x = 3, y = 4, vx = 5, vy = 6 \<rparr>,
                           \<lparr> oid = 2, x = 7, y = 8, vx = 9, vy = 10 \<rparr>]
   \<and> adjustPopulation (\<lambda>i. 1000) (\<lambda>i. 1 / 2) 1000 1000
        (length [\<lparr> oid = 1, x = 3, y = 4, vx = 5, vy = 6 \<rparr>,
                 \<lparr> oid = 2, x = 7, y = 8, vx = 9, vy = 10 \<rparr>] + 1)
        [\<lparr> oid = 1, x = 3, y = 4, vx = 5, vy = 6 \<rparr>, \<lparr> oid = 2, x = 7, y = 8, vx = 9, vy = 10 \<rparr>]
      = [\<lparr> oid = 1, x = 3, y = 4, vx = 5, vy = 6 \<rparr>, \<lparr> oid = 2, x = 7, y = 8, vx = 9, vy = 10 \<rparr>,
         \<lparr> oid = 1000, x = 465, y = 465, vx = 0, vy = 0 \<rparr>]
   \<and> adjustPopulation (\<lambda>i. 1000) (\<lambda>i. 1 / 2) 1000 1000
        (length [\<lparr> oid = 1, x = 3, y = 4, vx = 5, vy = 6 \<rparr>,
                 \<lparr> oid = 2, x = 7, y = 8, vx = 9, vy = 10 \<rparr>] - 1)
        [\<lparr> oid = 1, x = 3, y = 4, vx = 5, vy = 6 \<rparr>, \<lparr> oid = 2, x = 7, y = 8, vx = 9, vy = 10 \<rparr>]
      = [\<lparr> oid = 1, x = 3, y = 4, vx = 5, vy = 6 \<rparr>]"
proof -
  let ?os = "[\<lparr> oid = 1, x = 3, y = 4, vx = 5, vy = 6 \<rparr>,
              \<lparr> oid = 2, x = 7, y = 8, vx = 9, vy = (10::real) \<rparr>]"
  have r: "\<forall>i::nat. (0::real) \<le> (\<lambda>i. 1 / 2) i \<and> (\<lambda>i. 1 / 2) i < (1::real)" by simp
  have s: "orangeSize \<le> 1000" by (simp add: orangeSize_def)
  have k: "(1::nat) \<le> length ?os" by simp
  note t = population_tracks_count [OF r s s k, of "\<lambda>i. 1000" 1]
  have g: "adjustPopulation (\<lambda>i. 1000) (\<lambda>i. 1 / 2) 1000 1000 (length ?os + 1) ?os
      = ?os @ map (newOrange (\<lambda>i. 1000) (\<lambda>i. 1 / 2) 1000 1000) [0 ..< 1]"
    by (rule t [THEN conjunct1])
  have sh: "adjustPopulation (\<lambda>i. 1000) (\<lambda>i. 1 / 2) 1000 1000 (length ?os - 1) ?os
      = take (length ?os - 1) ?os"
    by (rule t [THEN conjunct2, THEN conjunct2, THEN conjunct2, THEN conjunct1])
  have n: "map (newOrange (\<lambda>i. 1000) (\<lambda>i. 1 / 2) 1000 1000) [0 ..< 1]
      = [\<lparr> oid = 1000, x = 465, y = 465, vx = 0, vy = 0 \<rparr>]"
    by (simp add: newOrange_def orangeSize_def)
  have tk: "take (length ?os - 1) ?os = [\<lparr> oid = 1, x = 3, y = 4, vx = 5, vy = 6 \<rparr>]"
    by simp
  show ?thesis
    unfolding g sh n tk using s by simp
qed

subsection \<open>The pairwise pass\<close>

text \<open>
  Claim C7, as the code has it. Two oranges at the same point with velocities
  \<open>(5, 0)\<close> and \<open>(-5, 0)\<close>, in a frame with \<open>0 < dt < 3.5\<close> in which neither meets a
  wall and the button, if mounted, is touched by neither after the pairwise pass.
  Integration moves them \<open>10 dt\<close> apart, and the pairwise pass then separates them
  symmetrically along the horizontal line through them, to a centre distance of
  \<open>minDistance\<close> (35 px, twice the collision radius): after the frame they do not
  overlap. The statement is about positions only.
\<close>

theorem coincident_pair_resolves:
  fixes a :: accel and dt x0 y0 cw ch :: real
  assumes dt: "0 < dt" "dt < 7 / 2"
    and wx: "0 \<le> x0 + (- 5 + ax a * dt) * dt" "x0 + (5 + ax a * dt) * dt + orangeSize \<le> cw"
    and wy: "0 \<le> y0 + ay a * dt * dt" "y0 + ay a * dt * dt + orangeSize \<le> ch"
    and clear: "\<forall>r. button = Some r \<longrightarrow>
        (\<forall>p \<in> set (update a dt cw ch None
           [\<lparr> oid = ia, x = x0, y = y0, vx = 5, vy = 0 \<rparr>,
            \<lparr> oid = ib, x = x0, y = y0, vx = - 5, vy = 0 \<rparr>]). \<not> touches r p)"
  shows "length (update a dt cw ch button
           [\<lparr> oid = ia, x = x0, y = y0, vx = 5, vy = 0 \<rparr>,
            \<lparr> oid = ib, x = x0, y = y0, vx = - 5, vy = 0 \<rparr>]) = 2
     \<and> x (update a dt cw ch button
           [\<lparr> oid = ia, x = x0, y = y0, vx = 5, vy = 0 \<rparr>,
            \<lparr> oid = ib, x = x0, y = y0, vx = - 5, vy = 0 \<rparr>] ! 0)
         = x0 + (5 + ax a * dt) * dt + (minDistance - 10 * dt) / 2
     \<and> x (update a dt cw ch button
           [\<lparr> oid = ia, x = x0, y = y0, vx = 5, vy = 0 \<rparr>,
            \<lparr> oid = ib, x = x0, y = y0, vx = - 5, vy = 0 \<rparr>] ! 1)
         = x0 + (- 5 + ax a * dt) * dt - (minDistance - 10 * dt) / 2
     \<and> y (update a dt cw ch button
           [\<lparr> oid = ia, x = x0, y = y0, vx = 5, vy = 0 \<rparr>,
            \<lparr> oid = ib, x = x0, y = y0, vx = - 5, vy = 0 \<rparr>] ! 0)
         = y0 + ay a * dt * dt
     \<and> y (update a dt cw ch button
           [\<lparr> oid = ia, x = x0, y = y0, vx = 5, vy = 0 \<rparr>,
            \<lparr> oid = ib, x = x0, y = y0, vx = - 5, vy = 0 \<rparr>] ! 1)
         = y0 + ay a * dt * dt
     \<and> centerDistance
          (update a dt cw ch button
             [\<lparr> oid = ia, x = x0, y = y0, vx = 5, vy = 0 \<rparr>,
              \<lparr> oid = ib, x = x0, y = y0, vx = - 5, vy = 0 \<rparr>] ! 0)
          (update a dt cw ch button
             [\<lparr> oid = ia, x = x0, y = y0, vx = 5, vy = 0 \<rparr>,
              \<lparr> oid = ib, x = x0, y = y0, vx = - 5, vy = 0 \<rparr>] ! 1) = minDistance
     \<and> minDistance = 2 * effectiveRadius"
proof -
  let ?os = "[\<lparr> oid = ia, x = x0, y = y0, vx = 5, vy = 0 \<rparr>,
              \<lparr> oid = ib, x = x0, y = y0, vx = - 5, vy = 0 \<rparr>]"
  have b: "update a dt cw ch button ?os = update a dt cw ch None ?os"
    using clear by (rule update_clear)
  note p = coincident_pair_positions [OF dt wx wy, of ia ib]
  have x0': "x (update a dt cw ch None ?os ! 0)
      = x0 + (5 + ax a * dt) * dt + (minDistance - 10 * dt) / 2"
    and y0': "y (update a dt cw ch None ?os ! 0) = y0 + ay a * dt * dt"
    and x1': "x (update a dt cw ch None ?os ! 1)
      = x0 + (- 5 + ax a * dt) * dt - (minDistance - 10 * dt) / 2"
    and y1': "y (update a dt cw ch None ?os ! 1) = y0 + ay a * dt * dt"
    and len: "length (update a dt cw ch None ?os) = 2"
    using p by blast+
  have md: "0 \<le> minDistance" by (simp add: minDistance_def effectiveRadius_def orangeSize_def)
  have dx: "x (update a dt cw ch None ?os ! 1) + orangeSize / 2
          - (x (update a dt cw ch None ?os ! 0) + orangeSize / 2) = - minDistance"
    unfolding x0' x1' by (simp add: algebra_simps)
  have dy: "y (update a dt cw ch None ?os ! 1) + orangeSize / 2
          - (y (update a dt cw ch None ?os ! 0) + orangeSize / 2) = 0"
    unfolding y0' y1' by simp
  have cd: "centerDistance (update a dt cw ch None ?os ! 0) (update a dt cw ch None ?os ! 1)
      = minDistance"
    unfolding centerDistance_def Let_def dx dy using md by simp
  show ?thesis
    unfolding b using len x0' x1' y0' y1' cd by (simp add: minDistance_def)
qed

theorem coincident_pair_resolves_witness:
  "(0::real) < 1 / 10 \<and> (1::real) / 10 < 7 / 2
   \<and> 0 \<le> 100 + (- 5 + ax defaultAccel * (1 / 10)) * (1 / 10)
   \<and> 100 + (5 + ax defaultAccel * (1 / 10)) * (1 / 10) + orangeSize \<le> 1000
   \<and> 0 \<le> 100 + ay defaultAccel * (1 / 10) * (1 / 10)
   \<and> 100 + ay defaultAccel * (1 / 10) * (1 / 10) + orangeSize \<le> 1000
   \<and> x (update defaultAccel (1 / 10) 1000 1000 None
           [\<lparr> oid = 1, x = 100, y = 100, vx = 5, vy = 0 \<rparr>,
            \<lparr> oid = 2, x = 100, y = 100, vx = - 5, vy = 0 \<rparr>] ! 0) = 235 / 2
   \<and> x (update defaultAccel (1 / 10) 1000 1000 None
           [\<lparr> oid = 1, x = 100, y = 100, vx = 5, vy = 0 \<rparr>,
            \<lparr> oid = 2, x = 100, y = 100, vx = - 5, vy = 0 \<rparr>] ! 1) = 165 / 2
   \<and> y (update defaultAccel (1 / 10) 1000 1000 None
           [\<lparr> oid = 1, x = 100, y = 100, vx = 5, vy = 0 \<rparr>,
            \<lparr> oid = 2, x = 100, y = 100, vx = - 5, vy = 0 \<rparr>] ! 0) = 105
   \<and> centerDistance
        (update defaultAccel (1 / 10) 1000 1000 None
           [\<lparr> oid = 1, x = 100, y = 100, vx = 5, vy = 0 \<rparr>,
            \<lparr> oid = 2, x = 100, y = 100, vx = - 5, vy = 0 \<rparr>] ! 0)
        (update defaultAccel (1 / 10) 1000 1000 None
           [\<lparr> oid = 1, x = 100, y = 100, vx = 5, vy = 0 \<rparr>,
            \<lparr> oid = 2, x = 100, y = 100, vx = - 5, vy = 0 \<rparr>] ! 1) = 35"
proof -
  let ?os = "[\<lparr> oid = 1, x = 100, y = 100, vx = 5, vy = 0 \<rparr>,
              \<lparr> oid = 2, x = 100, y = 100, vx = - 5, vy = (0::real) \<rparr>]"
  have h1: "(0::real) < 1 / 10" and h2: "(1::real) / 10 < 7 / 2" by simp_all
  have h3: "0 \<le> 100 + (- 5 + ax defaultAccel * (1 / 10)) * (1 / 10)"
    and h4: "100 + (5 + ax defaultAccel * (1 / 10)) * (1 / 10) + orangeSize \<le> 1000"
    and h5: "0 \<le> 100 + ay defaultAccel * (1 / 10) * (1 / 10)"
    and h6: "100 + ay defaultAccel * (1 / 10) * (1 / 10) + orangeSize \<le> 1000"
    by (simp_all add: defaultAccel_def orangeSize_def)
  have h7: "\<forall>r. (None :: rect option) = Some r \<longrightarrow>
        (\<forall>p \<in> set (update defaultAccel (1 / 10) 1000 1000 None ?os). \<not> touches r p)"
    by simp
  note t = coincident_pair_resolves [OF h1 h2 h3 h4 h5 h6 h7]
  have m: "minDistance = 35" by (simp add: minDistance_def effectiveRadius_def orangeSize_def)
  have e0: "x (update defaultAccel (1 / 10) 1000 1000 None ?os ! 0) = 235 / 2"
    using t [THEN conjunct2, THEN conjunct1] by (simp add: defaultAccel_def m)
  have e1: "x (update defaultAccel (1 / 10) 1000 1000 None ?os ! 1) = 165 / 2"
    using t [THEN conjunct2, THEN conjunct2, THEN conjunct1] by (simp add: defaultAccel_def m)
  have e2: "y (update defaultAccel (1 / 10) 1000 1000 None ?os ! 0) = 105"
    using t [THEN conjunct2, THEN conjunct2, THEN conjunct2, THEN conjunct1]
    by (simp add: defaultAccel_def)
  have e3: "centerDistance (update defaultAccel (1 / 10) 1000 1000 None ?os ! 0)
        (update defaultAccel (1 / 10) 1000 1000 None ?os ! 1) = 35"
    using t [THEN conjunct2, THEN conjunct2, THEN conjunct2, THEN conjunct2, THEN conjunct2,
        THEN conjunct1] by (simp only: m)
  show ?thesis using h1 h2 h3 h4 h5 h6 e0 e1 e2 e3 by blast
qed

text \<open>
  Claim C7 as stated fails. The phone lies on its left side (\<open>gamma = -90\<close>, no consent
  gate), the pair sits at the left wall (\<open>x = 0\<close>), the frame lasts 1/64 s: both
  oranges leave the container to the left and are clamped to \<open>x = 0\<close>, so their centres
  coincide after the first pass, the pairwise pass skips the pair (\<open>distance > 0\<close> is
  false), and the frame ends with centre distance 0.
\<close>

theorem coincident_pair_counterexample:
  "centerDistance
     (update (selectAccel False False True (handleDeviceOrientation (Some (- 90)) None))
        (1 / 64) 1000 1000 None
        [\<lparr> oid = 1, x = 0, y = 100, vx = 5, vy = 0 \<rparr>,
         \<lparr> oid = 2, x = 0, y = 100, vx = - 5, vy = 0 \<rparr>] ! 0)
     (update (selectAccel False False True (handleDeviceOrientation (Some (- 90)) None))
        (1 / 64) 1000 1000 None
        [\<lparr> oid = 1, x = 0, y = 100, vx = 5, vy = 0 \<rparr>,
         \<lparr> oid = 2, x = 0, y = 100, vx = - 5, vy = 0 \<rparr>] ! 1) = 0
   \<and> minDistance = 35"
  by (simp add: update_def obstaclePass_def pairwisePass_two integrate_def collide_def
      centerDistance_def selectAccel_def handleDeviceOrientation_def velocityBoost_def
      orangeSize_def minDistance_def effectiveRadius_def Let_def)

text \<open>
  Claim C10 at a concrete pair. Two overlapping oranges 10 px apart, moving head-on at
  5 px/s each: the pair is approaching, and the loop body separates the positions but
  leaves both velocities as they are, so no impulse is applied. The same two oranges
  moving apart at 5 px/s each get the impulse \<open>8 (1, 0)\<close> added to the first and
  subtracted from the second, which turns them towards each other. (The sum of the
  two velocities is unchanged in both cases, as for every pair.)
\<close>

theorem impulse_skips_approaching_pair:
  "approaching \<lparr> oid = 1, x = 0, y = 0, vx = 5, vy = 0 \<rparr>
               \<lparr> oid = 2, x = 10, y = 0, vx = - 5, vy = 0 \<rparr>
   \<and> centerDistance \<lparr> oid = 1, x = 0, y = 0, vx = 5, vy = 0 \<rparr>
                      \<lparr> oid = 2, x = 10, y = 0, vx = - 5, vy = 0 \<rparr> = 10
   \<and> minDistance = 35
   \<and> collide \<lparr> oid = 1, x = 0, y = 0, vx = 5, vy = 0 \<rparr>
               \<lparr> oid = 2, x = 10, y = 0, vx = - 5, vy = 0 \<rparr>
       = (\<lparr> oid = 1, x = - 25 / 2, y = 0, vx = 5, vy = 0 \<rparr>,
          \<lparr> oid = 2, x = 45 / 2, y = 0, vx = - 5, vy = 0 \<rparr>)
   \<and> \<not> approaching \<lparr> oid = 1, x = 0, y = 0, vx = - 5, vy = 0 \<rparr>
                     \<lparr> oid = 2, x = 10, y = 0, vx = 5, vy = 0 \<rparr>
   \<and> collide \<lparr> oid = 1, x = 0, y = 0, vx = - 5, vy = 0 \<rparr>
               \<lparr> oid = 2, x = 10, y = 0, vx = 5, vy = 0 \<rparr>
       = (\<lparr> oid = 1, x = - 25 / 2, y = 0, vx = 3, vy = 0 \<rparr>,
          \<lparr> oid = 2, x = 45 / 2, y = 0, vx = - 3, vy = 0 \<rparr>)
   \<and> approaching \<lparr> oid = 1, x = - 25 / 2, y = 0, vx = 3, vy = 0 \<rparr>
                   \<lparr> oid = 2, x = 45 / 2, y = 0, vx = - 3, vy = 0 \<rparr>"
proof -
  have m: "minDistance = 35"
    by (simp add: minDistance_def effectiveRadius_def orangeSize_def)
  have d: "centerDistance \<lparr> oid = 1, x = 0, y = 0, vx = 5, vy = 0 \<rparr>
                          \<lparr> oid = 2, x = 10, y = 0, vx = - 5, vy = 0 \<rparr> = 10"
    by (simp add: centerDistance_def orangeSize_def sqrt_100)
  have h: "collide \<lparr> oid = 1, x = 0, y = 0, vx = 5, vy = 0 \<rparr>
               \<lparr> oid = 2, x = 10, y = 0, vx = - 5, vy = 0 \<rparr>
       = (\<lparr> oid = 1, x = - 25 / 2, y = 0, vx = 5, vy = 0 \<rparr>,
          \<lparr> oid = 2, x = 45 / 2, y = 0, vx = - 5, vy = 0 \<rparr>)"
    by (simp add: collide_def orangeSize_def minDistance_def effectiveRadius_def Let_def sqrt_100)
  have r: "collide \<lparr> oid = 1, x = 0, y = 0, vx = - 5, vy = 0 \<rparr>
               \<lparr> oid = 2, x = 10, y = 0, vx = 5, vy = 0 \<rparr>
       = (\<lparr> oid = 1, x = - 25 / 2, y = 0, vx = 3, vy = 0 \<rparr>,
          \<lparr> oid = 2, x = 45 / 2, y = 0, vx = - 3, vy = 0 \<rparr>)"
    by (simp add: collide_def orangeSize_def minDistance_def effectiveRadius_def Let_def sqrt_100)
  show ?thesis
    unfolding h r d by (simp add: approaching_def m)
qed

subsection \<open>The button pass\<close>

text \<open>
  Claim C8. With the button mounted, the last pass of a frame applies the loop body to
  every orange that the first two passes produced. For the orange \<open>q\<close> at index \<open>i\<close>
  after those passes, when the distance \<open>d\<close> from its centre to the nearest point of
  the button rectangle is below \<open>effectiveRadius\<close>: the normal used is \<open>(0, -1)\<close>
  (straight up on the screen) when \<open>d = 0\<close> and the unit vector from the nearest
  point to the centre otherwise; it always has length 1; the frame leaves at index
  \<open>i\<close> an orange with velocity \<open>v - 2 (v \<cdot> n) n\<close>, so the normal component has
  changed sign and the speed is unchanged (no damping factor), and with the position
  moved by \<open>effectiveRadius - d\<close> along the normal.
\<close>

theorem obstacle_reflects_and_pushes_out:
  assumes i: "i < length (update a dt cw ch None prevOranges)"
    and q: "q = update a dt cw ch None prevOranges ! i"
    and od: "obstacleDist r q = (distX, distY, d)"
    and hit: "d < effectiveRadius"
    and cn: "contactNormal r q = (nx, ny)"
  shows "obstaclePass (Some r) newOranges = map (obstacleHit r) newOranges
       \<and> update a dt cw ch (Some r) prevOranges
           = obstaclePass (Some r)
               (pairwisePass (map (integrate a dt cw ch) prevOranges))
       \<and> length (update a dt cw ch (Some r) prevOranges)
           = length (update a dt cw ch None prevOranges)
       \<and> (nx, ny) = (if d = 0 then (0, - 1) else (distX / d, distY / d))
       \<and> nx * nx + ny * ny = 1
       \<and> vx (update a dt cw ch (Some r) prevOranges ! i) = vx q - 2 * (vx q * nx + vy q * ny) * nx
       \<and> vy (update a dt cw ch (Some r) prevOranges ! i) = vy q - 2 * (vx q * nx + vy q * ny) * ny
       \<and> (vx (update a dt cw ch (Some r) prevOranges ! i))\<^sup>2
           + (vy (update a dt cw ch (Some r) prevOranges ! i))\<^sup>2 = (vx q)\<^sup>2 + (vy q)\<^sup>2
       \<and> vx (update a dt cw ch (Some r) prevOranges ! i) * nx
           + vy (update a dt cw ch (Some r) prevOranges ! i) * ny = - (vx q * nx + vy q * ny)
       \<and> x (update a dt cw ch (Some r) prevOranges ! i) = x q + nx * (effectiveRadius - d)
       \<and> y (update a dt cw ch (Some r) prevOranges ! i) = y q + ny * (effectiveRadius - d)
       \<and> oid (update a dt cw ch (Some r) prevOranges ! i) = oid q"
proof -
  have at: "update a dt cw ch (Some r) prevOranges ! i = obstacleHit r q"
    using i q by (simp add: update_button)
  have len: "length (update a dt cw ch (Some r) prevOranges)
           = length (update a dt cw ch None prevOranges)"
    by (simp add: update_button)
  have pass: "obstaclePass (Some r) newOranges = map (obstacleHit r) newOranges"
    by (simp add: obstaclePass_def)
  have upd: "update a dt cw ch (Some r) prevOranges
           = obstaclePass (Some r) (pairwisePass (map (integrate a dt cw ch) prevOranges))"
    by (simp add: update_def)
  have n: "(nx, ny) = (if d = 0 then (0, - 1) else (distX / d, distY / d))"
    using od cn by (simp add: contactNormal_def)
  have u: "nx * nx + ny * ny = 1" using cn by (rule contactNormal_unit)
  have v1: "vx (obstacleHit r q) = vx q - 2 * (vx q * nx + vy q * ny) * nx"
    and v2: "vy (obstacleHit r q) = vy q - 2 * (vx q * nx + vy q * ny) * ny"
    and p1: "x (obstacleHit r q) = x q + nx * (effectiveRadius - d)"
    and p2: "y (obstacleHit r q) = y q + ny * (effectiveRadius - d)"
    and id: "oid (obstacleHit r q) = oid q"
    using od hit cn by (simp_all add: obstacleHit_def Let_def)
  have sp: "(vx (obstacleHit r q))\<^sup>2 + (vy (obstacleHit r q))\<^sup>2 = (vx q)\<^sup>2 + (vy q)\<^sup>2"
    unfolding v1 v2 by (rule reflect_speed [OF u])
  have nc: "vx (obstacleHit r q) * nx + vy (obstacleHit r q) * ny = - (vx q * nx + vy q * ny)"
    unfolding v1 v2 by (rule reflect_normal [OF u])
  show ?thesis
    unfolding at using pass upd len n u v1 v2 sp nc p1 p2 id by blast
qed

theorem obstacle_reflects_and_pushes_out_witness:
  "(0::nat) < length (update defaultAccel (1 / 10) 1000 1000 None
                        [\<lparr> oid = 1, x = 0, y = 0, vx = 0, vy = 0 \<rparr>])
   \<and> update defaultAccel (1 / 10) 1000 1000 None [\<lparr> oid = 1, x = 0, y = 0, vx = 0, vy = 0 \<rparr>] ! 0
       = \<lparr> oid = 1, x = 0, y = 5, vx = 0, vy = 99 / 2 \<rparr>
   \<and> obstacleDist \<lparr> left = 0, top_edge = 0, right = 100, bottom = 100 \<rparr>
                   \<lparr> oid = 1, x = 0, y = 5, vx = 0, vy = 99 / 2 \<rparr> = (0, 0, 0)
   \<and> 0 < effectiveRadius
   \<and> contactNormal \<lparr> left = 0, top_edge = 0, right = 100, bottom = 100 \<rparr>
                    \<lparr> oid = 1, x = 0, y = 5, vx = 0, vy = 99 / 2 \<rparr> = (0, - 1)
   \<and> update defaultAccel (1 / 10) 1000 1000
        (Some \<lparr> left = 0, top_edge = 0, right = 100, bottom = 100 \<rparr>)
        [\<lparr> oid = 1, x = 0, y = 0, vx = 0, vy = 0 \<rparr>] ! 0
       = \<lparr> oid = 1, x = 0, y = - 25 / 2, vx = 0, vy = - 99 / 2 \<rparr>
   \<and> (0::nat) < length (update defaultAccel (1 / 10) 1000 1000 None
                        [\<lparr> oid = 1, x = 10, y = 0, vx = - 100, vy = 0 \<rparr>])
   \<and> update defaultAccel (1 / 10) 1000 1000 None [\<lparr> oid = 1, x = 10, y = 0, vx = - 100, vy = 0 \<rparr>] ! 0
       = \<lparr> oid = 1, x = 0, y = 5, vx = - 99, vy = 99 / 2 \<rparr>
   \<and> obstacleDist \<lparr> left = 40, top_edge = 0, right = 100, bottom = 100 \<rparr>
                   \<lparr> oid = 1, x = 0, y = 5, vx = - 99, vy = 99 / 2 \<rparr> = (- 5, 0, 5)
   \<and> 5 < effectiveRadius
   \<and> contactNormal \<lparr> left = 40, top_edge = 0, right = 100, bottom = 100 \<rparr>
                    \<lparr> oid = 1, x = 0, y = 5, vx = - 99, vy = 99 / 2 \<rparr> = (- 1, 0)
   \<and> update defaultAccel (1 / 10) 1000 1000
        (Some \<lparr> left = 40, top_edge = 0, right = 100, bottom = 100 \<rparr>)
        [\<lparr> oid = 1, x = 10, y = 0, vx = - 100, vy = 0 \<rparr>] ! 0
       = \<lparr> oid = 1, x = - 25 / 2, y = 5, vx = 99, vy = 99 / 2 \<rparr>"
proof -
  let ?r = "\<lparr> left = 0, top_edge = 0, right = 100, bottom = (100::real) \<rparr>"
  let ?s = "\<lparr> left = 40, top_edge = 0, right = 100, bottom = (100::real) \<rparr>"
  let ?p = "\<lparr> oid = 1, x = 0, y = 0, vx = 0, vy = (0::real) \<rparr>"
  let ?p' = "\<lparr> oid = 1, x = 10, y = 0, vx = - 100, vy = (0::real) \<rparr>"
  let ?q = "\<lparr> oid = 1, x = 0, y = 5, vx = 0, vy = (99::real) / 2 \<rparr>"
  let ?q' = "\<lparr> oid = 1, x = 0, y = 5, vx = - 99, vy = (99::real) / 2 \<rparr>"
  have er: "effectiveRadius = 35 / 2" by (simp add: effectiveRadius_def orangeSize_def)
  have u: "update defaultAccel (1 / 10) 1000 1000 None [?p] = [?q]"
    by (simp add: update_def obstaclePass_def pairwisePass_one integrate_def defaultAccel_def
        orangeSize_def Let_def)
  have u': "update defaultAccel (1 / 10) 1000 1000 None [?p'] = [?q']"
    by (simp add: update_def obstaclePass_def pairwisePass_one integrate_def defaultAccel_def
        orangeSize_def Let_def)
  have i: "(0::nat) < length (update defaultAccel (1 / 10) 1000 1000 None [?p])"
    by (simp add: u)
  have i': "(0::nat) < length (update defaultAccel (1 / 10) 1000 1000 None [?p'])"
    by (simp add: u')
  have q: "?q = update defaultAccel (1 / 10) 1000 1000 None [?p] ! 0" by (simp add: u)
  have q': "?q' = update defaultAccel (1 / 10) 1000 1000 None [?p'] ! 0" by (simp add: u')
  have od: "obstacleDist ?r ?q = (0, 0, 0)"
    by (simp add: obstacleDist_def orangeSize_def)
  have od': "obstacleDist ?s ?q' = (- 5, 0, 5)"
    by (simp add: obstacleDist_def orangeSize_def sqrt_25)
  have h: "(0::real) < effectiveRadius" and h': "(5::real) < effectiveRadius"
    by (simp_all add: er)
  have cn: "contactNormal ?r ?q = (0, - 1)" by (simp add: contactNormal_def od)
  have cn': "contactNormal ?s ?q' = (- 1, 0)" by (simp add: contactNormal_def od')
  note t = obstacle_reflects_and_pushes_out [OF i q od h cn]
  note t' = obstacle_reflects_and_pushes_out [OF i' q' od' h' cn']
  let ?z = "update defaultAccel (1 / 10) 1000 1000 (Some ?r) [?p] ! 0"
  let ?z' = "update defaultAccel (1 / 10) 1000 1000 (Some ?s) [?p'] ! 0"
  have a1: "vx ?z = 0"
    using t [THEN conjunct2, THEN conjunct2, THEN conjunct2, THEN conjunct2, THEN conjunct2,
        THEN conjunct1] by simp
  have a2: "vy ?z = - 99 / 2"
    using t [THEN conjunct2, THEN conjunct2, THEN conjunct2, THEN conjunct2, THEN conjunct2,
        THEN conjunct2, THEN conjunct1] by simp
  have a3: "x ?z = 0"
    using t [THEN conjunct2, THEN conjunct2, THEN conjunct2, THEN conjunct2, THEN conjunct2,
        THEN conjunct2, THEN conjunct2, THEN conjunct2, THEN conjunct2, THEN conjunct1] by simp
  have a4: "y ?z = - 25 / 2"
    using t [THEN conjunct2, THEN conjunct2, THEN conjunct2, THEN conjunct2, THEN conjunct2,
        THEN conjunct2, THEN conjunct2, THEN conjunct2, THEN conjunct2, THEN conjunct2,
        THEN conjunct1] by (simp add: er)
  have a5: "oid ?z = 1"
    using t [THEN conjunct2, THEN conjunct2, THEN conjunct2, THEN conjunct2, THEN conjunct2,
        THEN conjunct2, THEN conjunct2, THEN conjunct2, THEN conjunct2, THEN conjunct2,
        THEN conjunct2] by simp
  have z: "?z = \<lparr> oid = 1, x = 0, y = - 25 / 2, vx = 0, vy = - 99 / 2 \<rparr>"
    using a1 a2 a3 a4 a5 by (cases ?z) simp
  have b1: "vx ?z' = 99"
    using t' [THEN conjunct2, THEN conjunct2, THEN conjunct2, THEN conjunct2, THEN conjunct2,
        THEN conjunct1] by simp
  have b2: "vy ?z' = 99 / 2"
    using t' [THEN conjunct2, THEN conjunct2, THEN conjunct2, THEN conjunct2, THEN conjunct2,
        THEN conjunct2, THEN conjunct1] by simp
  have b3: "x ?z' = - 25 / 2"
    using t' [THEN conjunct2, THEN conjunct2, THEN conjunct2, THEN conjunct2, THEN conjunct2,
        THEN conjunct2, THEN conjunct2, THEN conjunct2, THEN conjunct2, THEN conjunct1]
    by (simp add: er)
  have b4: "y ?z' = 5"
    using t' [THEN conjunct2, THEN conjunct2, THEN conjunct2, THEN conjunct2, THEN conjunct2,
        THEN conjunct2, THEN conjunct2, THEN conjunct2, THEN conjunct2, THEN conjunct2,
        THEN conjunct1] by simp
  have b5: "oid ?z' = 1"
    using t' [THEN conjunct2, THEN conjunct2, THEN conjunct2, THEN conjunct2, THEN conjunct2,
        THEN conjunct2, THEN conjunct2, THEN conjunct2, THEN conjunct2, THEN conjunct2,
        THEN conjunct2] by simp
  have z': "?z' = \<lparr> oid = 1, x = - 25 / 2, y = 5, vx = 99, vy = 99 / 2 \<rparr>"
    using b1 b2 b3 b4 b5 by (cases ?z') simp
  show ?thesis
    using i q [symmetric] od h cn z i' q' [symmetric] od' h' cn' z' by blast
qed

subsection \<open>The acceleration\<close>

text \<open>
  The value of the selection expression without a consent gate: with
  \<open>window.DeviceOrientationEvent\<close> truthy, \<open>velocityBoost\<close> times the stored vector,
  that is 4.5 times the tilt angles once a sample has arrived; with it falsy, the
  default \<open>(0, 500)\<close>, whatever is stored. (This is the expression alone: the component
  also reads the bare global \<open>DeviceOrientationEvent\<close> while rendering, which is an
  error when the global does not exist.)
\<close>

lemma selectAccel_cases:
  "selectAccel False granted True accelRef
     = \<lparr> ax = ax accelRef * velocityBoost, ay = ay accelRef * velocityBoost \<rparr>
   \<and> selectAccel False granted True (handleDeviceOrientation (Some gamma) (Some beta))
     = \<lparr> ax = gamma * 3 * 1.5, ay = beta * 3 * 1.5 \<rparr>
   \<and> selectAccel needs granted False accelRef = defaultAccel
   \<and> defaultAccel = \<lparr> ax = 0, ay = 500 \<rparr>"
  by (simp add: selectAccel_def defaultAccel_def velocityBoost_def handleDeviceOrientation_def)

text \<open>
  Claim C9 at a concrete state: no consent gate, the orientation API present, no sample
  yet (\<open>accelRef\<close> still holds its initial value). The vector handed to the simulation
  is \<open>(0, 0)\<close>, not the default \<open>(0, 500)\<close>; the selection expression gives the
  default when \<open>window.DeviceOrientationEvent\<close> is falsy.
\<close>

theorem accel_before_first_sample:
  "selectAccel False False True accelRefInitial = \<lparr> ax = 0, ay = 0 \<rparr>
   \<and> selectAccel False False True accelRefInitial \<noteq> defaultAccel
   \<and> selectAccel False False False accelRefInitial = \<lparr> ax = 0, ay = 500 \<rparr>"
  by (simp add: selectAccel_def accelRefInitial_def defaultAccel_def velocityBoost_def)

end
